theory Spec2Isabelle
  imports Complex_Main "HOL-Library.AList" "HOL-Library.Multiset"
begin

section \<open>Values\<close>

text \<open>
  Python floats are read as real numbers together with the three special results of
  IEEE arithmetic. numpy does not raise on a division by zero: it returns nan for 0/0
  and a signed infinity otherwise (and prints a RuntimeWarning).
\<close>

datatype npfloat = Num real | PosInf | NegInf | NaN

datatype py_error =
    ValueError
  | TypeError
  | ConstraintException string
  | ConversionException
  | BinderException
  | NotImplementedException
  | InvalidInputException
  | ApiException

text \<open>The values that occur in the dictionaries the updater passes around.\<close>

datatype pyval = PyNone | PyStr string | PyFloat npfloat

type_synonym pydict = "string \<rightharpoonup> pyval"

definition dict_get :: "pydict \<Rightarrow> string \<Rightarrow> pyval \<Rightarrow> pyval" where
  "dict_get d k dflt = (case d k of None \<Rightarrow> dflt | Some v \<Rightarrow> v)"

section \<open>Cosine similarity (jira\_updater.py, jira\_updater\_enhanced.py)\<close>

text \<open>
  \<^verbatim>\<open>return np.dot(a, b) / (np.linalg.norm(a) * np.linalg.norm(b))\<close>

  \<open>np.dot\<close> of two one-dimensional sequences of different lengths raises
  ValueError (shapes not aligned); it is evaluated first.
\<close>

definition np_dot :: "real list \<Rightarrow> real list \<Rightarrow> py_error + real" where
  "np_dot a b =
     (if length a \<noteq> length b then Inl ValueError
      else Inr (sum_list (map (\<lambda>(x, y). x * y) (zip a b))))"

definition np_norm :: "real list \<Rightarrow> real" where
  "np_norm a = sqrt (sum_list (map (\<lambda>x. x * x) a))"

definition np_div :: "real \<Rightarrow> real \<Rightarrow> npfloat" where
  "np_div x y =
     (if y = 0 then (if x = 0 then NaN else if 0 < x then PosInf else NegInf)
      else Num (x / y))"

definition cosine_similarity :: "real list \<Rightarrow> real list \<Rightarrow> py_error + npfloat" where
  "cosine_similarity a b =
     (case np_dot a b of
        Inl e \<Rightarrow> Inl e
      | Inr d \<Rightarrow> Inr (np_div d (np_norm a * np_norm b)))"

section \<open>Configuration (config.py)\<close>

record config =
  SIMILARITY_THRESHOLD :: real
  MAX_SIMILAR_INCIDENTS :: int
  MIN_INCIDENTS_FOR_ANALYSIS :: int

definition Config :: config where
  "Config = \<lparr>SIMILARITY_THRESHOLD = 3 / 10, MAX_SIMILAR_INCIDENTS = 5,
     MIN_INCIDENTS_FOR_ANALYSIS = 3\<rparr>"

section \<open>The incidents table (excel\_to\_db\_processor.py, setup\_database)\<close>

text \<open>
  A date of a record is the text that pandas' \<open>isoformat()\<close> returns: an ISO
  timestamp, or the text \<open>NaT\<close> for a missing date.
\<close>

datatype timestamp_text = NaT | Iso string

text \<open>
  One record of the table \<open>incidents\<close>, as the dictionary that ingestion prepares
  and as the row the table holds; \<open>INC\<close> is the primary key, a date is \<open>None\<close>
  for NULL. The table is the list of its rows in the order of insertion.
\<close>

record incident =
  INC :: string
  Short_Desc :: string
  Created_Date :: "timestamp_text option"
  Updated_Date :: "timestamp_text option"
  Assignee :: string
  Group :: string
  Created_By :: string
  Updated_By :: string
  vector :: "real list"
  json_file_path :: string

type_synonym store = "incident list"


subsection \<open>What the typed columns accept\<close>

text \<open>
  The two date columns are \<open>TIMESTAMP\<close>: the text \<open>NaT\<close> does not convert.
\<close>

definition cast_TIMESTAMP :: "timestamp_text option \<Rightarrow> py_error + string option" where
  "cast_TIMESTAMP d =
     (case d of
        None \<Rightarrow> Inr None
      | Some NaT \<Rightarrow> Inl ConversionException
      | Some (Iso s) \<Rightarrow> Inr (Some s))"

text \<open>
  The column \<open>vector\<close> is \<open>FLOAT[]\<close>: a list of any length of 32-bit floats.
  A Python float is rounded to the nearest 32-bit float (24 significant bits, the
  exponent of the last bit between -149 and 104, ties to the even significand), and a
  value that rounds beyond the largest one does not convert. \<open>float32_exponent\<close>
  searches the exponent of the last bit from 104 downwards.
\<close>

definition pow2 :: "int \<Rightarrow> real" where
  "pow2 e = (if 0 \<le> e then 2 ^ nat e else 1 / 2 ^ nat (- e))"

fun float32_exponent :: "nat \<Rightarrow> real \<Rightarrow> int" where
  "float32_exponent 0 a = - 149"
| "float32_exponent (Suc n) a =
     (if pow2 (int (Suc n) - 126) \<le> a then int (Suc n) - 149 else float32_exponent n a)"

definition round_half_even :: "real \<Rightarrow> int" where
  "round_half_even q =
     (let f = \<lfloor>q\<rfloor>
      in if q - of_int f < 1 / 2 then f
         else if 1 / 2 < q - of_int f then f + 1
         else if even f then f else f + 1)"

definition to_float32 :: "real \<Rightarrow> real" where
  "to_float32 x =
     (let e = float32_exponent 253 \<bar>x\<bar>
      in of_int (round_half_even (x / pow2 e)) * pow2 e)"

definition cast_FLOAT :: "real \<Rightarrow> py_error + real" where
  "cast_FLOAT x =
     (let y = to_float32 x
      in if 2 ^ 128 \<le> \<bar>y\<bar> then Inl ConversionException else Inr y)"

fun cast_FLOAT_list :: "real list \<Rightarrow> py_error + real list" where
  "cast_FLOAT_list [] = Inr []"
| "cast_FLOAT_list (x # xs) =
     (case cast_FLOAT x of
        Inl e \<Rightarrow> Inl e
      | Inr y \<Rightarrow> (case cast_FLOAT_list xs of Inl e \<Rightarrow> Inl e | Inr ys \<Rightarrow> Inr (y # ys)))"

text \<open>
  A record that the typed columns accept, and the row that is stored for it.
\<close>

definition storable :: "incident \<Rightarrow> bool" where
  "storable r \<longleftrightarrow>
     Created_Date r \<noteq> Some NaT \<and> Updated_Date r \<noteq> Some NaT
     \<and> list_all (\<lambda>x. \<bar>to_float32 x\<bar> < 2 ^ 128) (vector r)"

definition stored :: "incident \<Rightarrow> incident" where
  "stored r = r\<lparr>vector := map to_float32 (vector r)\<rparr>"

section \<open>Similarity search (search\_similar\_incidents)\<close>


























section \<open>Pattern analysis (analyze\_historical\_patterns)\<close>

text \<open>
  A Python dictionary whose order of keys matters is an association list:
  \<open>AList.update\<close> replaces the value of a key in place and appends a new key at the
  end, as assignment to a \<open>dict\<close> does, and iteration runs from the head.
\<close>

type_synonym groups = "(pyval \<times> pydict list) list"

text \<open>
  \<^verbatim>\<open>if assignee not in assignee_patterns:
      assignee_patterns[assignee] = []
  assignee_patterns[assignee].append(incident)\<close>
\<close>

definition add_to_group :: "pyval \<Rightarrow> pydict \<Rightarrow> groups \<Rightarrow> groups" where
  "add_to_group k incident d =
     (let d' = (if map_of d k = None then AList.update k [] d else d)
      in AList.map_entry k (\<lambda>l. l @ [incident]) d')"

fun group_incidents :: "pydict list \<Rightarrow> groups \<times> groups \<Rightarrow> groups \<times> groups" where
  "group_incidents [] (assignee_patterns, group_patterns) = (assignee_patterns, group_patterns)"
| "group_incidents (incident # rest) (assignee_patterns, group_patterns) =
     (let assignee = dict_get incident ''Assignee'' (PyStr ''Unknown'');
          grp = dict_get incident ''Group'' (PyStr ''Unknown'')
      in group_incidents rest
           (add_to_group assignee incident assignee_patterns,
            add_to_group grp incident group_patterns))"

text \<open>
  Python's \<open>max(iterable, key=f)\<close>: the first item is the candidate and a later item
  replaces it only when its key is strictly greater; an empty iterable raises
  ValueError.
\<close>

fun py_max_from :: "('a \<Rightarrow> nat) \<Rightarrow> 'a \<Rightarrow> 'a list \<Rightarrow> 'a" where
  "py_max_from key best [] = best"
| "py_max_from key best (x # xs) = py_max_from key (if key best < key x then x else best) xs"

definition py_max :: "('a \<Rightarrow> nat) \<Rightarrow> 'a list \<Rightarrow> py_error + 'a" where
  "py_max key xs = (case xs of [] \<Rightarrow> Inl ValueError | x # rest \<Rightarrow> Inr (py_max_from key x rest))"

text \<open>
  \<^verbatim>\<open>max(patterns.keys(), key=lambda k: len(patterns[k]))\<close>: the keys are visited in
  the dictionary's order, each with the length of its own entry.
\<close>

definition most_common :: "groups \<Rightarrow> py_error + pyval" where
  "most_common d =
     (case py_max (\<lambda>entry. length (snd entry)) d of
        Inl e \<Rightarrow> Inl e
      | Inr entry \<Rightarrow> Inr (fst entry))"

text \<open>
  An f-string is kept as the list of its parts, unformatted: literal text, an
  interpolated value, an interpolated \<open>len(...)\<close>.
\<close>

datatype fragment = Lit string | Val pyval | Len nat

type_synonym fstring = "fragment list"

record analysis =
  patterns :: "fstring list"
  root_causes :: "fstring list"
  recommendations :: "fstring list"
  confidence_score :: real
  suggested_assignee :: pyval
  suggested_group :: pyval

text \<open>jira\_updater\_enhanced.py.\<close>

definition analyze_historical_patterns :: "config \<Rightarrow> pydict list \<Rightarrow> string \<Rightarrow> py_error + analysis" where
  "analyze_historical_patterns cfg similar_incidents jira_description =
     (let analysis0 = \<lparr>patterns = [], root_causes = [], recommendations = [],
            confidence_score = 0, suggested_assignee = PyStr ''Unknown'',
            suggested_group = PyStr ''Unknown''\<rparr>
      in if similar_incidents = [] then Inr analysis0
         else
           (case group_incidents similar_incidents ([], []) of
              (assignee_patterns, group_patterns) \<Rightarrow>
                (case most_common assignee_patterns of
                   Inl e \<Rightarrow> Inl e
                 | Inr most_common_assignee \<Rightarrow>
                     (case most_common group_patterns of
                        Inl e \<Rightarrow> Inl e
                      | Inr most_common_group \<Rightarrow>
                          (let analysis1 = analysis0
                                 \<lparr>suggested_assignee := most_common_assignee,
                                  suggested_group := most_common_group,
                                  patterns :=
                                    [[Lit ''Most incidents handled by: '', Val most_common_assignee],
                                     [Lit ''Most incidents in group: '', Val most_common_group],
                                     [Lit ''Total similar incidents found: '',
                                      Len (length similar_incidents)]]\<rparr>
                           in if MIN_INCIDENTS_FOR_ANALYSIS cfg \<le> int (length similar_incidents)
                              then Inr (analysis1
                                     \<lparr>recommendations :=
                                        [[Lit ''Assign to '', Val most_common_assignee,
                                          Lit '' as they have handled similar incidents''],
                                         [Lit ''Consider involving '', Val most_common_group,
                                          Lit '' team''],
                                         [Lit ''Review past solutions from similar incidents''],
                                         [Lit ''Check for common root causes in historical data'']],
                                      confidence_score :=
                                        min (8 / 10) (real (length similar_incidents) * (15 / 100))\<rparr>)
                              else Inr (analysis1
                                     \<lparr>recommendations :=
                                        [[Lit ''Limited historical data available''],
                                         [Lit ''Consider broader search criteria''],
                                         [Lit ''Manual review recommended'']],
                                      confidence_score := 3 / 10\<rparr>))))))"

text \<open>
  jira\_updater.py: the older analyzer has no suggested labels, a fixed minimum of 3 and
  no branch for fewer matches (the confidence stays at its initial 0.0).
\<close>

record analysis_basic =
  similar_patterns :: "fstring list"
  common_fixes :: "fstring list"
  recommended_actions :: "fstring list"
  basic_confidence_score :: real

definition analyze_historical_patterns_basic :: "pydict list \<Rightarrow> string \<Rightarrow> py_error + analysis_basic" where
  "analyze_historical_patterns_basic similar_incidents jira_description =
     (let analysis0 = \<lparr>similar_patterns = [], common_fixes = [], recommended_actions = [],
            basic_confidence_score = 0\<rparr>
      in if similar_incidents = [] then Inr analysis0
         else
           (case group_incidents similar_incidents ([], []) of
              (assignee_patterns, group_patterns) \<Rightarrow>
                (case most_common assignee_patterns of
                   Inl e \<Rightarrow> Inl e
                 | Inr most_common_assignee \<Rightarrow>
                     (case most_common group_patterns of
                        Inl e \<Rightarrow> Inl e
                      | Inr most_common_group \<Rightarrow>
                          (let analysis1 = analysis0
                                 \<lparr>similar_patterns :=
                                    [[Lit ''Most incidents handled by: '', Val most_common_assignee],
                                     [Lit ''Most incidents in group: '', Val most_common_group],
                                     [Lit ''Total similar incidents found: '',
                                      Len (length similar_incidents)]]\<rparr>
                           in if 3 \<le> length similar_incidents
                              then Inr (analysis1
                                     \<lparr>recommended_actions :=
                                        [[Lit ''Assign to '', Val most_common_assignee,
                                          Lit '' as they have handled similar incidents''],
                                         [Lit ''Consider involving '', Val most_common_group,
                                          Lit '' team''],
                                         [Lit ''Review past solutions from similar incidents'']],
                                      basic_confidence_score :=
                                        min (8 / 10) (real (length similar_incidents) * (15 / 100))\<rparr>)
                              else Inr analysis1)))))"

text \<open>The labels the analyzer counts, in the order of the matches.\<close>

definition assignee_labels :: "pydict list \<Rightarrow> pyval list" where
  "assignee_labels similar_incidents =
     map (\<lambda>incident. dict_get incident ''Assignee'' (PyStr ''Unknown'')) similar_incidents"

definition group_labels :: "pydict list \<Rightarrow> pyval list" where
  "group_labels similar_incidents =
     map (\<lambda>incident. dict_get incident ''Group'' (PyStr ''Unknown'')) similar_incidents"

text \<open>
  What it means for \<open>r\<close> to be the most common label with ties going to the
  earliest: \<open>r\<close> occurs, no label occurs more often, and every label that occurs
  before the first occurrence of \<open>r\<close> occurs strictly less often.
\<close>

definition first_most_common :: "'a list \<Rightarrow> 'a \<Rightarrow> bool" where
  "first_most_common labels r \<longleftrightarrow>
     r \<in> set labels
     \<and> (\<forall>l \<in> set labels. count_list labels l \<le> count_list labels r)
     \<and> (\<forall>l \<in> set (takeWhile (\<lambda>l. l \<noteq> r) labels). count_list labels l < count_list labels r)"

text \<open>The two matches of test\_jira\_updater.py (test\_analysis\_generation).\<close>

definition mock_incidents :: "pydict list" where
  "mock_incidents =
     [[''INC'' \<mapsto> PyStr ''1232325'',
       ''Short Desc'' \<mapsto> PyStr ''UI is not loading for scapper application'',
       ''Created Date'' \<mapsto> PyStr ''2025-01-05'',
       ''Updated Date'' \<mapsto> PyStr ''2025-10-09'',
       ''Assignee'' \<mapsto> PyStr ''jack'',
       ''Group'' \<mapsto> PyStr ''app-dev'',
       ''Created By'' \<mapsto> PyStr ''RR'',
       ''Updated By'' \<mapsto> PyStr ''jack'',
       ''similarity'' \<mapsto> PyFloat (Num (85 / 100))],
      [''INC'' \<mapsto> PyStr ''1232321'',
       ''Short Desc'' \<mapsto> PyStr ''the data is not loading for scappper application'',
       ''Created Date'' \<mapsto> PyStr ''2025-01-01'',
       ''Updated Date'' \<mapsto> PyStr ''2025-01-09'',
       ''Assignee'' \<mapsto> PyStr ''xyz'',
       ''Group'' \<mapsto> PyStr ''app-dev'',
       ''Created By'' \<mapsto> PyStr ''abc'',
       ''Updated By'' \<mapsto> PyStr ''xyz'',
       ''similarity'' \<mapsto> PyFloat (Num (72 / 100))]]"

section \<open>Ingestion (excel\_to\_db\_processor.py)\<close>

text \<open>
  A row of the spreadsheet, as the code reads it: each text column is the value of
  \<^verbatim>\<open>str(row.get(column, ''))\<close> (the text \<open>nan\<close> for an empty cell) and each
  date column is the value of
  \<^verbatim>\<open>pd.to_datetime(cell).isoformat() if cell else None\<close>: \<open>None\<close> for a false
  cell, \<open>NaT\<close> for a cell that holds nan.
\<close>

record excel_row =
  cell_INC :: string
  cell_Short_Desc :: string
  cell_Created_Date :: "timestamp_text option"
  cell_Updated_Date :: "timestamp_text option"
  cell_Assignee :: string
  cell_Group :: string
  cell_Created_By :: string
  cell_Updated_By :: string

definition get_existing_incidents :: "store \<Rightarrow> string set" where
  "get_existing_incidents st = set (map INC st)"

text \<open>
  The embedding service is a parameter; \<open>generate_embedding\<close> turns any exception
  of the call into the empty vector.
\<close>

definition generate_embedding :: "(string \<Rightarrow> py_error + real list) \<Rightarrow> string \<Rightarrow> real list" where
  "generate_embedding embed_content text = (case embed_content text of Inl e \<Rightarrow> [] | Inr v \<Rightarrow> v)"

text \<open>\<open>os.path.join\<close> of two parts (posixpath).\<close>

definition os_path_join :: "string \<Rightarrow> string \<Rightarrow> string" where
  "os_path_join a b =
     (if b \<noteq> [] \<and> hd b = CHR ''/'' then b
      else if a = [] \<or> last a = CHR ''/'' then a @ b
      else a @ ''/'' @ b)"

fun prepare_rows ::
  "(string \<Rightarrow> py_error + real list) \<Rightarrow> string set \<Rightarrow> string \<Rightarrow> excel_row list \<Rightarrow> incident list
     \<Rightarrow> incident list" where
  "prepare_rows embed_content existing_incs json_dir [] new_incidents = new_incidents"
| "prepare_rows embed_content existing_incs json_dir (row # rest) new_incidents =
     (let inc_number = cell_INC row
      in if inc_number \<in> existing_incs
         then prepare_rows embed_content existing_incs json_dir rest new_incidents
         else if inc_number = [] \<or> inc_number = ''nan''
         then prepare_rows embed_content existing_incs json_dir rest new_incidents
         else
           (let short_desc = cell_Short_Desc row;
                incident =
                  \<lparr>INC = inc_number,
                   Short_Desc = short_desc,
                   Created_Date = cell_Created_Date row,
                   Updated_Date = cell_Updated_Date row,
                   Assignee = cell_Assignee row,
                   Group = cell_Group row,
                   Created_By = cell_Created_By row,
                   Updated_By = cell_Updated_By row,
                   vector =
                     (if short_desc \<noteq> [] then generate_embedding embed_content short_desc
                      else []),
                   json_file_path = os_path_join json_dir (inc_number @ ''.json'')\<rparr>
            in prepare_rows embed_content existing_incs json_dir rest
                 (new_incidents @ [incident])))"

text \<open>
  The snapshot of the existing keys is taken once, before the loop over the rows.
\<close>

definition prepare_incident_data ::
  "(string \<Rightarrow> py_error + real list) \<Rightarrow> store \<Rightarrow> excel_row list \<Rightarrow> string \<Rightarrow> incident list" where
  "prepare_incident_data embed_content st df json_dir =
     prepare_rows embed_content (get_existing_incidents st) json_dir df []"

text \<open>
  \<^verbatim>\<open>INSERT INTO incidents VALUES (?, ...)\<close> for one record: the values are
  converted to the types of their columns, then the primary key rejects a key that is
  already in the table. The length of the vector is not looked at.
\<close>

definition execute_insert :: "store \<Rightarrow> incident \<Rightarrow> py_error + store" where
  "execute_insert st r =
     (case cast_TIMESTAMP (Created_Date r) of
        Inl e \<Rightarrow> Inl e
      | Inr created \<Rightarrow>
          (case cast_TIMESTAMP (Updated_Date r) of
             Inl e \<Rightarrow> Inl e
           | Inr updated \<Rightarrow>
               (case cast_FLOAT_list (vector r) of
                  Inl e \<Rightarrow> Inl e
                | Inr v \<Rightarrow>
                    if INC r \<in> set (map INC st) then Inl (ConstraintException (INC r))
                    else Inr (st @ [r\<lparr>vector := v\<rparr>]))))"

text \<open>
  \<open>executemany\<close> runs the statement once for each record, in order, each run
  committed by itself; the first failure is raised and ends the call. The pair is the
  exception raised, if any, and the table afterwards.
\<close>

fun execute_each :: "store \<Rightarrow> incident list \<Rightarrow> py_error option \<times> store" where
  "execute_each st [] = (None, st)"
| "execute_each st (v # vals) =
     (case execute_insert st v of
        Inl e \<Rightarrow> (Some e, st)
      | Inr st' \<Rightarrow> execute_each st' vals)"

definition executemany :: "store \<Rightarrow> incident list \<Rightarrow> py_error option \<times> store" where
  "executemany st vals =
     (if vals = [] then (Some InvalidInputException, st) else execute_each st vals)"

definition batch_size :: nat where
  "batch_size = 100"

text \<open>
  \<^verbatim>\<open>for i in range(0, len(incidents), batch_size):
      batch = incidents[i:i + batch_size]
      self.con.executemany(..., values)
      total_inserted += len(batch)\<close>
  inside \<^verbatim>\<open>try: ... except Exception as e: print(...); raise\<close>.
\<close>

function insert_loop :: "nat \<Rightarrow> incident list \<Rightarrow> store \<Rightarrow> nat \<Rightarrow> py_error option \<times> store" where
  "insert_loop i incidents st total_inserted =
     (if i < length incidents
      then (let batch = take batch_size (drop i incidents)
            in case executemany st batch of
                 (Some e, st') \<Rightarrow> (Some e, st')
               | (None, st') \<Rightarrow>
                   insert_loop (i + batch_size) incidents st' (total_inserted + length batch))
      else (None, st))"
  by pat_completeness auto
termination
  by (relation "measure (\<lambda>(i, incidents, st, total_inserted). length incidents - i)")
     (auto simp: batch_size_def)

declare insert_loop.simps [simp del]

definition insert_incidents :: "store \<Rightarrow> incident list \<Rightarrow> py_error option \<times> store" where
  "insert_incidents st incidents =
     (if incidents = [] then (None, st) else insert_loop 0 incidents st 0)"

text \<open>
  process\_excel\_to\_db, from the rows read to the end of the insertion: the records are
  prepared against the table as it is, then inserted. The result also carries the
  number of records prepared (the summary's "New incidents added").
\<close>

definition process_excel_to_db ::
  "(string \<Rightarrow> py_error + real list) \<Rightarrow> store \<Rightarrow> excel_row list \<Rightarrow> string
     \<Rightarrow> (py_error option \<times> store) \<times> nat" where
  "process_excel_to_db embed_content st df json_dir =
     (let incidents = prepare_incident_data embed_content st df json_dir
      in (insert_incidents st incidents, length incidents))"

section \<open>Batch processing (batch\_process\_issues)\<close>

text \<open>
  \<open>process_jira_issue\<close> talks to Jira, the database and the embedding model. It is a
  parameter: from the state of that world and an issue key it gives the boolean it
  returns, or the exception (an instance of \<open>Exception\<close>) it raises, and the world
  afterwards. The dictionary \<open>results\<close> is an association list in insertion order.
\<close>

fun batch_loop ::
  "('w \<Rightarrow> string \<Rightarrow> (py_error + bool) \<times> 'w) \<Rightarrow> string list \<Rightarrow> (string \<times> bool) list \<Rightarrow> 'w
     \<Rightarrow> (string \<times> bool) list \<times> 'w" where
  "batch_loop process_jira_issue [] results w = (results, w)"
| "batch_loop process_jira_issue (issue_key # rest) results w =
     (case process_jira_issue w issue_key of
        (Inr success, w') \<Rightarrow>
          batch_loop process_jira_issue rest (AList.update issue_key success results) w'
      | (Inl e, w') \<Rightarrow>
          batch_loop process_jira_issue rest (AList.update issue_key False results) w')"

definition batch_process_issues ::
  "('w \<Rightarrow> string \<Rightarrow> (py_error + bool) \<times> 'w) \<Rightarrow> string list \<Rightarrow> 'w \<Rightarrow> (string \<times> bool) list \<times> 'w" where
  "batch_process_issues process_jira_issue issue_keys w =
     batch_loop process_jira_issue issue_keys [] w"

section \<open>Sample data\<close>

text \<open>
  Concrete inputs for the examples below: a spreadsheet row and a stored record with
  a given key, an embedding service that answers every text with \<open>[1, 0]\<close>, and a
  \<open>process_jira_issue\<close> that raises for the key \<open>BAD-1\<close> and succeeds otherwise.
\<close>

definition sample_row :: "string \<Rightarrow> string \<Rightarrow> excel_row" where
  "sample_row inc short_desc =
     \<lparr>cell_INC = inc, cell_Short_Desc = short_desc,
      cell_Created_Date = Some (Iso ''2025-01-05T00:00:00''),
      cell_Updated_Date = None, cell_Assignee = ''jack'', cell_Group = ''app-dev'',
      cell_Created_By = ''RR'', cell_Updated_By = ''jack''\<rparr>"

definition sample_embed :: "string \<Rightarrow> py_error + real list" where
  "sample_embed text = Inr [1, 0]"

definition sample_incident :: "string \<Rightarrow> real list \<Rightarrow> incident" where
  "sample_incident inc v =
     \<lparr>INC = inc, Short_Desc = ''UI is not loading'',
      Created_Date = Some (Iso ''2025-01-05T00:00:00''),
      Updated_Date = None, Assignee = ''jack'', Group = ''app-dev'', Created_By = ''RR'',
      Updated_By = ''jack'', vector = v, json_file_path = ''out/'' @ inc @ ''.json''\<rparr>"

definition sample_process :: "unit \<Rightarrow> string \<Rightarrow> (py_error + bool) \<times> unit" where
  "sample_process w issue_key = (if issue_key = ''BAD-1'' then (Inl ValueError, w) else (Inr True, w))"

section \<open>Properties of the similarity computation\<close>





text \<open>
  C1. The claim: a stored vector of zero magnitude (all zeros, or the empty vector that
  ingestion assigns to a record with an empty description) gets the score 0 for every
  query vector, with no error and no non-numeric value. The code has no guard: for the
  all-zero vector \<open>[0, 0]\<close> and the query \<open>[1, 0]\<close> the division 0/0 yields
  nan, for the empty stored vector and the same query \<open>np.dot\<close> raises ValueError,
  and a zero query vector yields nan as well.
\<close>

theorem cosine_similarity_zero_vector_not_zero:
  "cosine_similarity [0, 0] [1, 0] = Inr NaN
   \<and> cosine_similarity [] [1, 0] = Inl ValueError
   \<and> cosine_similarity [1, 0] [0, 0] = Inr NaN
   \<and> cosine_similarity [0, 0] [1, 0] \<noteq> Inr (Num 0)"
  by (simp add: cosine_similarity_def np_dot_def np_div_def np_norm_def)

section \<open>Properties of the pattern analysis\<close>

lemma py_max_from_split:
  "\<exists>E1 E2. best # xs = E1 @ py_max_from key best xs # E2
     \<and> (\<forall>x \<in> set E1. key x < key (py_max_from key best xs))
     \<and> (\<forall>x \<in> set E2. key x \<le> key (py_max_from key best xs))"
proof (induction xs arbitrary: best)
  case Nil
  show ?case by (intro exI [of _ "[]"]) simp
next
  case (Cons x xs)
  show ?case
  proof (cases "key best < key x")
    case True
    define e where "e = py_max_from key x xs"
    from Cons.IH [of x] obtain E1 E2 where
      s: "x # xs = E1 @ e # E2"
      and lt: "\<forall>y \<in> set E1. key y < key e"
      and le: "\<forall>y \<in> set E2. key y \<le> key e"
      unfolding e_def by blast
    have "key x \<le> key e"
    proof (cases E1)
      case Nil
      with s have "x = e" by simp
      then show ?thesis by simp
    next
      case (Cons a E1')
      with s have "x = a" by simp
      with lt Cons show ?thesis by simp
    qed
    with True have b: "key best < key e" by simp
    have r: "py_max_from key best (x # xs) = e"
      using True by (simp add: e_def)
    have "best # x # xs = (best # E1) @ e # E2"
      using s by simp
    with b lt le show ?thesis
      unfolding r by (intro exI [of _ "best # E1"] exI [of _ E2]) simp
  next
    case False
    define e where "e = py_max_from key best xs"
    from Cons.IH [of best] obtain E1 E2 where
      s: "best # xs = E1 @ e # E2"
      and lt: "\<forall>y \<in> set E1. key y < key e"
      and le: "\<forall>y \<in> set E2. key y \<le> key e"
      unfolding e_def by blast
    have r: "py_max_from key best (x # xs) = e"
      using False by (simp add: e_def)
    show ?thesis
    proof (cases E1)
      case Nil
      with s have "best = e" and "xs = E2" by simp_all
      with False le show ?thesis
        unfolding r by (intro exI [of _ "[]"] exI [of _ "x # xs"]) auto
    next
      case (Cons a E1')
      with s have a: "a = best" and xs: "xs = E1' @ e # E2" by simp_all
      from lt Cons a have "key best < key e" by simp
      with False have "key x < key e" by simp
      with lt le Cons a xs show ?thesis
        unfolding r by (intro exI [of _ "best # x # E1'"] exI [of _ E2]) simp
    qed
  qed
qed

lemma first_occurrence_split:
  "rev (remdups (rev ls)) = K1 @ r # K2 \<Longrightarrow>
     \<exists>pre post. ls = pre @ r # post \<and> r \<notin> set pre \<and> set pre = set K1"
proof (induction ls arbitrary: K2 rule: rev_induct)
  case Nil
  then show ?case by simp
next
  case (snoc x xs)
  show ?case
  proof (cases "x \<in> set xs")
    case True
    with snoc.prems have "rev (remdups (rev xs)) = K1 @ r # K2" by simp
    from snoc.IH [OF this] obtain pre post where
      "xs = pre @ r # post" "r \<notin> set pre" "set pre = set K1" by blast
    then show ?thesis
      by (intro exI [of _ pre] exI [of _ "post @ [x]"]) simp
  next
    case False
    with snoc.prems have eq: "rev (remdups (rev xs)) @ [x] = K1 @ r # K2" by simp
    show ?thesis
    proof (cases K2 rule: rev_cases)
      case Nil
      with eq have "rev (remdups (rev xs)) = K1" and "x = r" by simp_all
      then have "set xs = set K1" by (metis set_remdups set_rev)
      with False \<open>x = r\<close> show ?thesis
        by (intro exI [of _ xs] exI [of _ "[]"]) simp
    next
      case (snoc K2' y)
      with eq have "rev (remdups (rev xs)) = K1 @ r # K2'" by simp
      from snoc.IH [OF this] obtain pre post where
        "xs = pre @ r # post" "r \<notin> set pre" "set pre = set K1" by blast
      then show ?thesis
        by (intro exI [of _ pre] exI [of _ "post @ [x]"]) simp
    qed
  qed
qed


lemma add_to_group_keys:
  "map fst (add_to_group k i d) = (if k \<in> set (map fst d) then map fst d else map fst d @ [k])"
proof -
  have m: "map fst (AList.map_entry k f al) = map fst al" for f and al :: groups
    by (induction al) auto
  show ?thesis
    by (auto simp: add_to_group_def Let_def m AList.update_keys map_of_eq_None_iff)
qed

lemma add_to_group_lookup:
  "map_of (add_to_group k i d) k' =
     (if k' = k then Some ((case map_of d k of None \<Rightarrow> [] | Some l \<Rightarrow> l) @ [i])
      else map_of d k')"
  by (auto simp: add_to_group_def Let_def AList.map_of_map_entry AList.update_conv'
        split: option.splits)

lemma group_incidents_foldl:
  "group_incidents xs (a, g) =
     (foldl (\<lambda>d i. add_to_group (dict_get i ''Assignee'' (PyStr ''Unknown'')) i d) a xs,
      foldl (\<lambda>d i. add_to_group (dict_get i ''Group'' (PyStr ''Unknown'')) i d) g xs)"
  by (induction xs arbitrary: a g) (simp_all add: Let_def)

lemma grouped_keys:
  "map fst (foldl (\<lambda>d i. add_to_group (f i) i d) [] xs) = rev (remdups (rev (map f xs)))"
proof (induction xs rule: rev_induct)
  case Nil
  show ?case by simp
next
  case (snoc x xs)
  have "set (rev (remdups (rev (map f xs)))) = f ` set xs"
    by simp
  with snoc show ?case
    by (simp add: add_to_group_keys del: set_rev set_remdups) auto
qed

lemma grouped_counts:
  "map_option length (map_of (foldl (\<lambda>d i. add_to_group (f i) i d) [] xs) k) =
     (if k \<in> f ` set xs then Some (count_list (map f xs) k) else None)"
proof (induction xs rule: rev_induct)
  case Nil
  show ?case by simp
next
  case (snoc x xs)
  then show ?case
    by (auto simp: add_to_group_lookup split: option.splits if_splits)
qed

lemma most_common_first:
  assumes "xs \<noteq> []"
  shows "\<exists>r pre post. most_common (foldl (\<lambda>d i. add_to_group (f i) i d) [] xs) = Inr r
     \<and> map f xs = pre @ r # post \<and> r \<notin> set pre
     \<and> (\<forall>l \<in> set pre. count_list (map f xs) l < count_list (map f xs) r)
     \<and> (\<forall>l \<in> set post. count_list (map f xs) l \<le> count_list (map f xs) r)"
proof -
  define D where "D = foldl (\<lambda>d i. add_to_group (f i) i d) [] xs"
  let ?ls = "map f xs"
  let ?key = "\<lambda>entry :: pyval \<times> pydict list. length (snd entry)"
  have keys: "map fst D = rev (remdups (rev ?ls))"
    unfolding D_def by (rule grouped_keys)
  then have dist: "distinct (map fst D)"
    by simp
  have cnt: "length l = count_list ?ls k" if "(k, l) \<in> set D" for k l
  proof -
    from that dist have "map_of D k = Some l" by simp
    with grouped_counts [of f xs k] show ?thesis
      by (auto simp: D_def split: if_splits)
  qed
  from assms(1) keys have "D \<noteq> []"
    by (cases xs) auto
  then obtain b rest where D: "D = b # rest"
    by (cases D) auto
  define e where "e = py_max_from ?key b rest"
  from py_max_from_split [of b rest ?key] obtain E1 E2 where
    split: "D = E1 @ e # E2"
    and lt: "\<forall>x \<in> set E1. ?key x < ?key e"
    and le: "\<forall>x \<in> set E2. ?key x \<le> ?key e"
    unfolding D e_def by blast
  have mc: "most_common D = Inr (fst e)"
    by (simp add: most_common_def py_max_def D e_def)
  have "rev (remdups (rev ?ls)) = map fst E1 @ fst e # map fst E2"
    using keys split by simp
  from first_occurrence_split [OF this] obtain pre post where
    ls: "?ls = pre @ fst e # post" and notin: "fst e \<notin> set pre"
    and pre: "set pre = set (map fst E1)"
    by blast
  have ce: "?key e = count_list ?ls (fst e)"
    using cnt [of "fst e" "snd e"] split by simp
  have c1: "count_list ?ls l < count_list ?ls (fst e)" if "l \<in> set (map fst E1)" for l
  proof -
    from that obtain x where x: "x \<in> set E1" "fst x = l" by auto
    then have "(l, snd x) \<in> set D" using split by auto
    from cnt [OF this] lt x ce show ?thesis by auto
  qed
  have c2: "count_list ?ls l \<le> count_list ?ls (fst e)" if "l \<in> set (map fst E2)" for l
  proof -
    from that obtain x where x: "x \<in> set E2" "fst x = l" by auto
    then have "(l, snd x) \<in> set D" using split by auto
    from cnt [OF this] le x ce show ?thesis by auto
  qed
  have "set ?ls = set (map fst D)"
    using keys by simp
  then have all: "set ?ls = set (map fst E1) \<union> {fst e} \<union> set (map fst E2)"
    using split by auto
  have post: "count_list ?ls l \<le> count_list ?ls (fst e)" if "l \<in> set post" for l
  proof -
    from that ls have "l \<in> set ?ls" by simp
    with all have "l \<in> set (map fst E1) \<or> l = fst e \<or> l \<in> set (map fst E2)" by blast
    then show ?thesis
    proof (elim disjE)
      assume "l \<in> set (map fst E1)"
      from c1 [OF this] show ?thesis by simp
    next
      assume "l = fst e"
      then show ?thesis by simp
    next
      assume "l \<in> set (map fst E2)"
      from c2 [OF this] show ?thesis .
    qed
  qed
  from mc ls notin pre c1 post show ?thesis
    unfolding D_def [symmetric] by blast
qed


lemma most_common_grouped:
  assumes "xs \<noteq> []"
  shows "\<exists>r. most_common (foldl (\<lambda>d i. add_to_group (f i) i d) [] xs) = Inr r
     \<and> first_most_common (map f xs) r"
proof -
  from most_common_first [OF assms, of f] obtain r pre post where
    mc: "most_common (foldl (\<lambda>d i. add_to_group (f i) i d) [] xs) = Inr r"
    and ls: "map f xs = pre @ r # post" and notin: "r \<notin> set pre"
    and lt: "\<forall>l \<in> set pre. count_list (map f xs) l < count_list (map f xs) r"
    and le: "\<forall>l \<in> set post. count_list (map f xs) l \<le> count_list (map f xs) r"
    by blast
  have tw: "takeWhile (\<lambda>l. l \<noteq> r) (pre @ r # post) = pre"
    using notin by (simp add: takeWhile_append)
  have a: "r \<in> set (map f xs)"
    unfolding ls by simp
  have b: "\<forall>l \<in> set (map f xs). count_list (map f xs) l \<le> count_list (map f xs) r"
  proof
    fix l assume "l \<in> set (map f xs)"
    then have "l \<in> set pre \<or> l = r \<or> l \<in> set post"
      unfolding ls by auto
    with lt le show "count_list (map f xs) l \<le> count_list (map f xs) r"
      by (auto simp: less_imp_le)
  qed
  have c: "\<forall>l \<in> set (takeWhile (\<lambda>l. l \<noteq> r) (map f xs)).
             count_list (map f xs) l < count_list (map f xs) r"
    using lt tw unfolding ls by simp
  from mc a b c show ?thesis
    unfolding first_most_common_def by blast
qed

lemma most_common_labels:
  assumes "similar_incidents \<noteq> []"
  obtains ra rg where
    "group_incidents similar_incidents ([], []) =
       (foldl (\<lambda>d i. add_to_group (dict_get i ''Assignee'' (PyStr ''Unknown'')) i d) []
          similar_incidents,
        foldl (\<lambda>d i. add_to_group (dict_get i ''Group'' (PyStr ''Unknown'')) i d) []
          similar_incidents)"
    "most_common (foldl (\<lambda>d i. add_to_group (dict_get i ''Assignee'' (PyStr ''Unknown'')) i d) []
          similar_incidents) = Inr ra"
    "most_common (foldl (\<lambda>d i. add_to_group (dict_get i ''Group'' (PyStr ''Unknown'')) i d) []
          similar_incidents) = Inr rg"
    "first_most_common (assignee_labels similar_incidents) ra"
    "first_most_common (group_labels similar_incidents) rg"
  using most_common_grouped [OF assms, of "\<lambda>i. dict_get i ''Assignee'' (PyStr ''Unknown'')"]
    most_common_grouped [OF assms, of "\<lambda>i. dict_get i ''Group'' (PyStr ''Unknown'')"]
    group_incidents_foldl [of similar_incidents "[]" "[]"]
  unfolding assignee_labels_def group_labels_def by blast

text \<open>
  C6. The claim: the confidence is \<open>min(0.8, n * 0.15)\<close> for \<open>n\<close> matches when
  \<open>n\<close> is at least the minimum for a confident analysis (3), and 0.3 below it. For
  the two matches of the test suite the analyzer of jira\_updater\_enhanced.py returns
  0.3; the analyzer of jira\_updater.py, which has no branch for fewer than 3 matches,
  returns its initial 0.0.
\<close>

theorem older_analyzer_confidence_below_minimum:
  "length mock_incidents = 2
   \<and> map_sum id basic_confidence_score (analyze_historical_patterns_basic mock_incidents [])
       = Inr 0
   \<and> map_sum id confidence_score (analyze_historical_patterns Config mock_incidents [])
       = Inr (3 / 10)"
  by (simp add: analyze_historical_patterns_def analyze_historical_patterns_basic_def
      mock_incidents_def Config_def Let_def add_to_group_def dict_get_def most_common_def
      py_max_def)

text \<open>
  The analyzer of jira\_updater\_enhanced.py, for every list of matches: it returns
  normally, with the confidence 0.0 for no match, \<open>min(0.8, n * 0.15)\<close> for \<open>n\<close>
  matches when \<open>n\<close> is at least \<open>MIN_INCIDENTS_FOR_ANALYSIS\<close>, and 0.3 for
  fewer.
\<close>

theorem enhanced_confidence_score:
  "\<exists>a. analyze_historical_patterns cfg similar_incidents jira_description = Inr a
      \<and> confidence_score a =
          (if similar_incidents = [] then 0
           else if MIN_INCIDENTS_FOR_ANALYSIS cfg \<le> int (length similar_incidents)
           then min (8 / 10) (real (length similar_incidents) * (15 / 100))
           else 3 / 10)"
proof (cases "similar_incidents = []")
  case True
  then show ?thesis
    by (simp add: analyze_historical_patterns_def)
next
  case False
  from most_common_labels [OF False] obtain ra rg where
    g: "group_incidents similar_incidents ([], []) =
       (foldl (\<lambda>d i. add_to_group (dict_get i ''Assignee'' (PyStr ''Unknown'')) i d) []
          similar_incidents,
        foldl (\<lambda>d i. add_to_group (dict_get i ''Group'' (PyStr ''Unknown'')) i d) []
          similar_incidents)"
    and ra: "most_common (foldl (\<lambda>d i. add_to_group (dict_get i ''Assignee'' (PyStr ''Unknown'')) i d) []
          similar_incidents) = Inr ra"
    and rg: "most_common (foldl (\<lambda>d i. add_to_group (dict_get i ''Group'' (PyStr ''Unknown'')) i d) []
          similar_incidents) = Inr rg"
    by blast
  show ?thesis
    using False by (simp add: analyze_historical_patterns_def g ra rg Let_def)
qed

text \<open>At the two matches of the test suite and at six copies of the first of them.\<close>

theorem enhanced_confidence_score_witness:
  "(\<exists>a. analyze_historical_patterns Config mock_incidents [] = Inr a \<and> confidence_score a = 3 / 10)
   \<and> (\<exists>a. analyze_historical_patterns Config (replicate 6 (hd mock_incidents)) [] = Inr a
        \<and> confidence_score a = 8 / 10)"
  using enhanced_confidence_score [of Config mock_incidents "[]"]
    enhanced_confidence_score [of Config "replicate 6 (hd mock_incidents)" "[]"]
  by (simp add: Config_def mock_incidents_def)

text \<open>
  C9. For a non-empty list of matches both analyzers return normally, and the assignee and
  the group they report are each a most common label; among labels of equal maximal
  count it is the one whose first occurrence in the list of matches is the earliest. The
  analyzer of jira\_updater\_enhanced.py returns the two labels as its suggestions, the
  analyzer of jira\_updater.py inside its first two patterns. (Both are functions of the
  list: the same list always gives the same labels.)
\<close>

theorem suggested_label_first_most_common:
  assumes "similar_incidents \<noteq> []"
  shows "\<exists>a b. analyze_historical_patterns cfg similar_incidents jira_description = Inr a
     \<and> first_most_common (assignee_labels similar_incidents) (suggested_assignee a)
     \<and> first_most_common (group_labels similar_incidents) (suggested_group a)
     \<and> analyze_historical_patterns_basic similar_incidents jira_description = Inr b
     \<and> similar_patterns b =
         [[Lit ''Most incidents handled by: '', Val (suggested_assignee a)],
          [Lit ''Most incidents in group: '', Val (suggested_group a)],
          [Lit ''Total similar incidents found: '', Len (length similar_incidents)]]"
proof -
  from most_common_labels [OF assms] obtain ra rg where
    g: "group_incidents similar_incidents ([], []) =
       (foldl (\<lambda>d i. add_to_group (dict_get i ''Assignee'' (PyStr ''Unknown'')) i d) []
          similar_incidents,
        foldl (\<lambda>d i. add_to_group (dict_get i ''Group'' (PyStr ''Unknown'')) i d) []
          similar_incidents)"
    and ra: "most_common (foldl (\<lambda>d i. add_to_group (dict_get i ''Assignee'' (PyStr ''Unknown'')) i d) []
          similar_incidents) = Inr ra"
    and rg: "most_common (foldl (\<lambda>d i. add_to_group (dict_get i ''Group'' (PyStr ''Unknown'')) i d) []
          similar_incidents) = Inr rg"
    and fa: "first_most_common (assignee_labels similar_incidents) ra"
    and fg: "first_most_common (group_labels similar_incidents) rg"
    by blast
  have "\<exists>a. analyze_historical_patterns cfg similar_incidents jira_description = Inr a
      \<and> suggested_assignee a = ra \<and> suggested_group a = rg"
    using assms by (simp add: analyze_historical_patterns_def g ra rg Let_def)
  then obtain a where a: "analyze_historical_patterns cfg similar_incidents jira_description = Inr a"
    and sa: "suggested_assignee a = ra" and sg: "suggested_group a = rg"
    by blast
  have "\<exists>b. analyze_historical_patterns_basic similar_incidents jira_description = Inr b
      \<and> similar_patterns b =
         [[Lit ''Most incidents handled by: '', Val ra],
          [Lit ''Most incidents in group: '', Val rg],
          [Lit ''Total similar incidents found: '', Len (length similar_incidents)]]"
    using assms by (simp add: analyze_historical_patterns_basic_def g ra rg Let_def)
  then obtain b where b: "analyze_historical_patterns_basic similar_incidents jira_description = Inr b"
    and sp: "similar_patterns b =
         [[Lit ''Most incidents handled by: '', Val ra],
          [Lit ''Most incidents in group: '', Val rg],
          [Lit ''Total similar incidents found: '', Len (length similar_incidents)]]"
    by blast
  show ?thesis
  proof (intro exI conjI)
    show "analyze_historical_patterns cfg similar_incidents jira_description = Inr a"
      by (rule a)
    show "first_most_common (assignee_labels similar_incidents) (suggested_assignee a)"
      unfolding sa by (rule fa)
    show "first_most_common (group_labels similar_incidents) (suggested_group a)"
      unfolding sg by (rule fg)
    show "analyze_historical_patterns_basic similar_incidents jira_description = Inr b"
      by (rule b)
    show "similar_patterns b =
         [[Lit ''Most incidents handled by: '', Val (suggested_assignee a)],
          [Lit ''Most incidents in group: '', Val (suggested_group a)],
          [Lit ''Total similar incidents found: '', Len (length similar_incidents)]]"
      unfolding sa sg by (rule sp)
  qed
qed

text \<open>
  C9, at the two matches of the test suite: the assignees \<open>jack\<close> and \<open>xyz\<close> occur
  once each, and \<open>jack\<close>, who comes first, is reported by both analyzers.
\<close>

theorem suggested_label_first_most_common_witness:
  "mock_incidents \<noteq> []
   \<and> (\<exists>a b. analyze_historical_patterns Config mock_incidents [] = Inr a
        \<and> suggested_assignee a = PyStr ''jack''
        \<and> suggested_group a = PyStr ''app-dev''
        \<and> first_most_common (assignee_labels mock_incidents) (suggested_assignee a)
        \<and> first_most_common (group_labels mock_incidents) (suggested_group a)
        \<and> analyze_historical_patterns_basic mock_incidents [] = Inr b
        \<and> similar_patterns b =
            [[Lit ''Most incidents handled by: '', Val (PyStr ''jack'')],
             [Lit ''Most incidents in group: '', Val (PyStr ''app-dev'')],
             [Lit ''Total similar incidents found: '', Len 2]])"
proof -
  have ne: "mock_incidents \<noteq> []"
    by (simp add: mock_incidents_def)
  have ev: "map_sum id (\<lambda>a. (suggested_assignee a, suggested_group a))
      (analyze_historical_patterns Config mock_incidents []) = Inr (PyStr ''jack'', PyStr ''app-dev'')"
    by (simp add: analyze_historical_patterns_def mock_incidents_def Config_def Let_def
      add_to_group_def dict_get_def most_common_def py_max_def)
  have len: "length mock_incidents = 2"
    by (simp add: mock_incidents_def)
  from suggested_label_first_most_common [OF ne, of Config "[]"] obtain a b where
    a: "analyze_historical_patterns Config mock_incidents [] = Inr a"
    and fa: "first_most_common (assignee_labels mock_incidents) (suggested_assignee a)"
    and fg: "first_most_common (group_labels mock_incidents) (suggested_group a)"
    and b: "analyze_historical_patterns_basic mock_incidents [] = Inr b"
    and sp: "similar_patterns b =
         [[Lit ''Most incidents handled by: '', Val (suggested_assignee a)],
          [Lit ''Most incidents in group: '', Val (suggested_group a)],
          [Lit ''Total similar incidents found: '', Len (length mock_incidents)]]"
    by blast
  from ev a have sa: "suggested_assignee a = PyStr ''jack''" and sg: "suggested_group a = PyStr ''app-dev''"
    by simp_all
  show ?thesis
  proof (intro conjI exI)
    show "mock_incidents \<noteq> []"
      by (rule ne)
    show "analyze_historical_patterns Config mock_incidents [] = Inr a"
      by (rule a)
    show "suggested_assignee a = PyStr ''jack''"
      by (rule sa)
    show "suggested_group a = PyStr ''app-dev''"
      by (rule sg)
    show "first_most_common (assignee_labels mock_incidents) (suggested_assignee a)"
      by (rule fa)
    show "first_most_common (group_labels mock_incidents) (suggested_group a)"
      by (rule fg)
    show "analyze_historical_patterns_basic mock_incidents [] = Inr b"
      by (rule b)
    show "similar_patterns b =
            [[Lit ''Most incidents handled by: '', Val (PyStr ''jack'')],
             [Lit ''Most incidents in group: '', Val (PyStr ''app-dev'')],
             [Lit ''Total similar incidents found: '', Len 2]]"
      using sp unfolding sa sg len by simp
  qed
qed

section \<open>Properties of the ingestion\<close>

lemma float32_exponent_0: "float32_exponent 253 0 = - 149"
  by (simp add: eval_nat_numeral pow2_def)

lemma float32_exponent_1: "float32_exponent 253 1 = - 23"
  by (simp add: eval_nat_numeral pow2_def)

lemma to_float32_0: "to_float32 0 = 0"
  by (simp add: to_float32_def round_half_even_def)

lemma to_float32_1: "to_float32 1 = 1"
  by (simp add: to_float32_def float32_exponent_1 round_half_even_def pow2_def)

lemma cast_FLOAT_0: "cast_FLOAT 0 = Inr 0"
  by (simp add: cast_FLOAT_def to_float32_0)

lemma cast_FLOAT_1: "cast_FLOAT 1 = Inr 1"
  by (simp add: cast_FLOAT_def to_float32_1)

lemma float32_exponent_tenth: "float32_exponent 253 (1 / 10) = - 27"
  by (simp add: eval_nat_numeral pow2_def)

lemma to_float32_tenth: "to_float32 (1 / 10) = 13421773 / 134217728"
  by (simp add: to_float32_def float32_exponent_tenth [simplified] round_half_even_def pow2_def)

lemma float32_exponent_big: "float32_exponent 253 (10 ^ 39) = 104"
  by (simp add: eval_nat_numeral pow2_def)

lemma cast_FLOAT_big: "cast_FLOAT (10 ^ 39) = Inl ConversionException"
  by (simp add: cast_FLOAT_def to_float32_def float32_exponent_big [simplified]
      round_half_even_def pow2_def)

lemma cast_FLOAT_list_storable:
  "list_all (\<lambda>x. \<bar>to_float32 x\<bar> < 2 ^ 128) v \<Longrightarrow> cast_FLOAT_list v = Inr (map to_float32 v)"
  by (induction v) (simp_all add: cast_FLOAT_def)

lemma cast_FLOAT_list_error: "cast_FLOAT_list v = Inl e \<Longrightarrow> e = ConversionException"
  by (induction v arbitrary: e) (auto simp: cast_FLOAT_def Let_def split: if_splits sum.splits)

lemma execute_insert_storable:
  "storable r \<Longrightarrow>
     execute_insert st r =
       (if INC r \<in> set (map INC st) then Inl (ConstraintException (INC r))
        else Inr (st @ [stored r]))"
  by (cases "Created_Date r"; cases "Updated_Date r")
     (auto simp: execute_insert_def storable_def stored_def cast_TIMESTAMP_def
        cast_FLOAT_list_storable split: timestamp_text.splits)

lemma INC_stored: "INC (stored r) = INC r"
  by (simp add: stored_def)

lemma execute_each_append:
  "execute_each st (xs @ ys) =
     (case execute_each st xs of
        (Some e, st') \<Rightarrow> (Some e, st')
      | (None, st') \<Rightarrow> execute_each st' ys)"
  by (induction xs arbitrary: st) (auto split: sum.splits)

lemma insert_loop_execute_each:
  "insert_loop i incidents st total_inserted = execute_each st (drop i incidents)"
proof (induction i incidents st total_inserted rule: insert_loop.induct)
  case (1 i incidents st total_inserted)
  show ?case
  proof (cases "i < length incidents")
    case False
    then show ?thesis by (simp add: insert_loop.simps)
  next
    case True
    define batch where "batch = take batch_size (drop i incidents)"
    have ne: "batch \<noteq> []"
      using True by (simp add: batch_def batch_size_def)
    have split: "drop i incidents = batch @ drop (i + batch_size) incidents"
      by (simp add: batch_def add.commute [of i] flip: drop_drop)
    have IH: "insert_loop (i + batch_size) incidents st' (total_inserted + length batch)
          = execute_each st' (drop (i + batch_size) incidents)"
      if "execute_each st batch = (None, st')" for st'
      using "1.IH" [OF True refl] that ne
      by (auto simp: batch_def executemany_def)
    obtain r st' where ex: "execute_each st batch = (r, st')"
      by (cases "execute_each st batch")
    have unfold: "insert_loop i incidents st total_inserted =
        (case execute_each st batch of
           (Some e, st') \<Rightarrow> (Some e, st')
         | (None, st') \<Rightarrow>
             insert_loop (i + batch_size) incidents st' (total_inserted + length batch))"
      using True ne unfolding batch_def
      by (subst insert_loop.simps) (simp add: executemany_def Let_def)
    show ?thesis
    proof (cases r)
      case None
      with ex IH [of st'] show ?thesis
        unfolding unfold split by (simp add: execute_each_append)
    next
      case (Some e)
      with ex show ?thesis
        unfolding unfold split by (simp add: execute_each_append)
    qed
  qed
qed

lemma insert_incidents_execute_each: "insert_incidents st incidents = execute_each st incidents"
  by (simp add: insert_incidents_def insert_loop_execute_each)

lemma execute_each_all_new:
  "list_all storable xs \<Longrightarrow> distinct (map INC xs) \<Longrightarrow> set (map INC xs) \<inter> set (map INC st) = {}
     \<Longrightarrow> execute_each st xs = (None, st @ map stored xs)"
proof (induction xs arbitrary: st)
  case Nil
  show ?case by simp
next
  case (Cons x xs)
  from Cons.prems have x: "storable x" "INC x \<notin> set (map INC st)" by auto
  from Cons.prems have "execute_each (st @ [stored x]) xs = (None, (st @ [stored x]) @ map stored xs)"
    by (intro Cons.IH) (auto simp: INC_stored)
  with x show ?case
    by (simp add: execute_insert_storable)
qed

lemma execute_each_first_failure:
  assumes "list_all storable pre" and "distinct (map INC pre)"
    and "set (map INC pre) \<inter> set (map INC st) = {}"
    and "execute_insert (st @ map stored pre) r = Inl e"
  shows "execute_each st (pre @ r # post) = (Some e, st @ map stored pre)"
  using assms by (simp add: execute_each_append execute_each_all_new)

lemma prepare_rows_keys:
  "map INC (prepare_rows embed_content existing json_dir df acc) =
     map INC acc @ filter (\<lambda>k. k \<notin> existing \<and> k \<noteq> [] \<and> k \<noteq> ''nan'') (map cell_INC df)"
  by (induction df arbitrary: acc) (simp_all add: Let_def)

lemma prepare_incident_data_keys:
  "map INC (prepare_incident_data embed_content st df json_dir) =
     filter (\<lambda>k. k \<notin> set (map INC st) \<and> k \<noteq> [] \<and> k \<noteq> ''nan'') (map cell_INC df)"
  by (simp add: prepare_incident_data_def get_existing_incidents_def prepare_rows_keys)

lemmas sample_casts = cast_FLOAT_0 cast_FLOAT_1 to_float32_0 to_float32_1 cast_TIMESTAMP_def

text \<open>
  C3. The claim: of several rows of one batch that share a new key, only the first is
  kept for insertion. The code checks a row's key against the keys found in the table
  before the loop and against nothing else: two rows with the new key \<open>1\<close> are both
  prepared, and the insertion of the second violates the primary key, which ends the run
  with an exception.
\<close>

theorem prepare_keeps_duplicate_keys:
  "map INC (prepare_incident_data sample_embed []
      [sample_row ''1'' ''UI is not loading'', sample_row ''1'' ''UI is not loading again''] ''out'')
     = [''1'', ''1'']
   \<and> fst (fst (process_excel_to_db sample_embed []
      [sample_row ''1'' ''UI is not loading'', sample_row ''1'' ''UI is not loading again''] ''out''))
     = Some (ConstraintException ''1'')"
  by (simp add: process_excel_to_db_def prepare_incident_data_def get_existing_incidents_def
      insert_incidents_execute_each execute_insert_def sample_row_def sample_embed_def generate_embedding_def Let_def sample_casts)

text \<open>
  C4. The claim: a record that fails to insert does not stop the insertion of the
  records after it, and the outcome lists the keys that succeeded and failed. The code
  re-raises the first exception. As amended: the records are inserted in order; when
  the database accepts every record (the keys are new and distinct, no date is
  \<open>NaT\<close>, every component of a vector is in the range of a 32-bit float) all
  records are inserted and the call returns normally; otherwise the first record that
  the database rejects raises the database's exception to the caller, the records before
  it stay inserted and none after it is.
\<close>

theorem insert_incidents_stops_at_first_failure:
  "(list_all storable incidents \<and> distinct (map INC incidents)
      \<and> set (map INC incidents) \<inter> set (map INC st) = {}
      \<longrightarrow> insert_incidents st incidents = (None, st @ map stored incidents))
   \<and> (list_all storable pre \<and> distinct (map INC pre) \<and> set (map INC pre) \<inter> set (map INC st) = {}
        \<and> execute_insert (st @ map stored pre) r = Inl e
      \<longrightarrow> insert_incidents st (pre @ r # post) = (Some e, st @ map stored pre))"
  by (simp only: insert_incidents_execute_each)
     (blast intro: execute_each_all_new execute_each_first_failure)

text \<open>
  C4, at a batch of two acceptable records, at a batch whose second record repeats a
  stored key, and at a batch whose second record has the date \<open>NaT\<close>.
\<close>

theorem insert_incidents_stops_at_first_failure_witness:
  "insert_incidents [] [sample_incident ''1'' [1, 0], sample_incident ''2'' [0, 1]]
     = (None, [sample_incident ''1'' [1, 0], sample_incident ''2'' [0, 1]])
   \<and> insert_incidents [sample_incident ''1'' [1, 0]]
        ([sample_incident ''2'' [0, 1]] @ sample_incident ''1'' [0, 1] # [sample_incident ''3'' [1, 0]])
     = (Some (ConstraintException ''1''), [sample_incident ''1'' [1, 0], sample_incident ''2'' [0, 1]])
   \<and> insert_incidents [sample_incident ''1'' [1, 0]]
        ([sample_incident ''2'' [0, 1]] @ (sample_incident ''3'' [0, 1])\<lparr>Updated_Date := Some NaT\<rparr>
           # [sample_incident ''4'' [1, 0]])
     = (Some ConversionException, [sample_incident ''1'' [1, 0], sample_incident ''2'' [0, 1]])"
proof -
  have s: "storable (sample_incident k [1, 0])" "storable (sample_incident k [0, 1])"
    "stored (sample_incident k [1, 0]) = sample_incident k [1, 0]"
    "stored (sample_incident k [0, 1]) = sample_incident k [0, 1]" for k
    by (simp_all add: storable_def stored_def sample_incident_def to_float32_0 to_float32_1)
  have k: "INC (sample_incident k v) = k" for k v
    by (simp add: sample_incident_def)
  have f1: "execute_insert [sample_incident ''1'' [1, 0], sample_incident ''2'' [0, 1]]
      (sample_incident ''1'' [0, 1]) = Inl (ConstraintException ''1'')"
    by (simp add: execute_insert_storable s k)
  have f2: "execute_insert [sample_incident ''1'' [1, 0], sample_incident ''2'' [0, 1]]
      ((sample_incident ''3'' [0, 1])\<lparr>Updated_Date := Some NaT\<rparr>) = Inl ConversionException"
    by (simp add: execute_insert_def cast_TIMESTAMP_def sample_incident_def)
  have a: "insert_incidents [] [sample_incident ''1'' [1, 0], sample_incident ''2'' [0, 1]]
     = (None, [] @ map stored [sample_incident ''1'' [1, 0], sample_incident ''2'' [0, 1]])"
    by (rule insert_incidents_stops_at_first_failure [THEN conjunct1, rule_format])
       (simp add: s k)
  have b: "insert_incidents [sample_incident ''1'' [1, 0]]
        ([sample_incident ''2'' [0, 1]] @ sample_incident ''1'' [0, 1] # [sample_incident ''3'' [1, 0]])
     = (Some (ConstraintException ''1''),
        [sample_incident ''1'' [1, 0]] @ map stored [sample_incident ''2'' [0, 1]])"
    by (rule insert_incidents_stops_at_first_failure [THEN conjunct2, rule_format])
       (simp add: s k f1)
  have c: "insert_incidents [sample_incident ''1'' [1, 0]]
        ([sample_incident ''2'' [0, 1]] @ (sample_incident ''3'' [0, 1])\<lparr>Updated_Date := Some NaT\<rparr>
           # [sample_incident ''4'' [1, 0]])
     = (Some ConversionException,
        [sample_incident ''1'' [1, 0]] @ map stored [sample_incident ''2'' [0, 1]])"
    by (rule insert_incidents_stops_at_first_failure [THEN conjunct2, rule_format])
       (simp add: s k f2)
  show ?thesis
    using a b c by (simp add: s)
qed

text \<open>
  C4 as claimed fails: after the duplicate of key \<open>1\<close> the record with the new key
  \<open>2\<close> is not inserted, and the caller gets the exception.
\<close>

theorem insert_incidents_aborts_counterexample:
  "insert_incidents []
     [sample_incident ''1'' [1, 0], sample_incident ''1'' [0, 1], sample_incident ''2'' [1, 0]]
   = (Some (ConstraintException ''1''), [sample_incident ''1'' [1, 0]])"
  by (simp add: insert_incidents_execute_each execute_insert_def sample_incident_def sample_casts)

text \<open>
  C5. The claim: a second run on the same batch inserts nothing and leaves the table as
  the first run left it. With a repeated new key in the batch (rows with the keys
  \<open>1\<close>, \<open>1\<close>, \<open>2\<close>) the first run stops at the duplicate with only \<open>1\<close>
  inserted; the second run then finds \<open>2\<close> new and inserts it.
\<close>

theorem second_run_inserts_after_duplicate:
  "fst (fst (process_excel_to_db sample_embed []
      [sample_row ''1'' ''a'', sample_row ''1'' ''b'', sample_row ''2'' ''c''] ''out''))
     = Some (ConstraintException ''1'')
   \<and> map INC (snd (fst (process_excel_to_db sample_embed []
      [sample_row ''1'' ''a'', sample_row ''1'' ''b'', sample_row ''2'' ''c''] ''out''))) = [''1'']
   \<and> fst (fst (process_excel_to_db sample_embed
        (snd (fst (process_excel_to_db sample_embed []
           [sample_row ''1'' ''a'', sample_row ''1'' ''b'', sample_row ''2'' ''c''] ''out'')))
        [sample_row ''1'' ''a'', sample_row ''1'' ''b'', sample_row ''2'' ''c''] ''out'')) = None
   \<and> map INC (snd (fst (process_excel_to_db sample_embed
        (snd (fst (process_excel_to_db sample_embed []
           [sample_row ''1'' ''a'', sample_row ''1'' ''b'', sample_row ''2'' ''c''] ''out'')))
        [sample_row ''1'' ''a'', sample_row ''1'' ''b'', sample_row ''2'' ''c''] ''out'')))
     = [''1'', ''2'']
   \<and> snd (process_excel_to_db sample_embed
        (snd (fst (process_excel_to_db sample_embed []
           [sample_row ''1'' ''a'', sample_row ''1'' ''b'', sample_row ''2'' ''c''] ''out'')))
        [sample_row ''1'' ''a'', sample_row ''1'' ''b'', sample_row ''2'' ''c''] ''out'') = 1"
  by (simp add: process_excel_to_db_def prepare_incident_data_def get_existing_incidents_def
      insert_incidents_execute_each execute_insert_def sample_row_def sample_embed_def generate_embedding_def Let_def sample_casts)

text \<open>
  Without a repeated new key, and with records that the database accepts, the pipeline
  is idempotent: the first run inserts every prepared record, and a second run on the
  same batch prepares nothing and leaves the table as it is.
\<close>

theorem ingest_twice_without_repeated_keys:
  assumes "distinct (filter (\<lambda>k. k \<notin> get_existing_incidents st \<and> k \<noteq> [] \<and> k \<noteq> ''nan'')
             (map cell_INC df))"
    and "list_all storable (prepare_incident_data embed_content st df json_dir)"
  shows "\<exists>st'. fst (process_excel_to_db embed_content st df json_dir) = (None, st')
     \<and> st' = st @ map stored (prepare_incident_data embed_content st df json_dir)
     \<and> process_excel_to_db embed_content st' df json_dir = ((None, st'), 0)"
proof -
  define new where "new = prepare_incident_data embed_content st df json_dir"
  have keys: "map INC new =
      filter (\<lambda>k. k \<notin> set (map INC st) \<and> k \<noteq> [] \<and> k \<noteq> ''nan'') (map cell_INC df)"
    unfolding new_def by (rule prepare_incident_data_keys)
  have "distinct (map INC new)"
    using assms(1) keys by (simp add: get_existing_incidents_def)
  moreover have "set (map INC new) \<inter> set (map INC st) = {}"
    unfolding keys by auto
  moreover have "list_all storable new"
    using assms(2) by (simp add: new_def)
  ultimately have first: "insert_incidents st new = (None, st @ map stored new)"
    unfolding insert_incidents_execute_each by (intro execute_each_all_new)
  have stored_keys: "map INC (map stored new) = map INC new"
    by (simp add: INC_stored)
  have "map INC (prepare_incident_data embed_content (st @ map stored new) df json_dir) =
      filter (\<lambda>k. k \<notin> set (map INC (st @ map stored new)) \<and> k \<noteq> [] \<and> k \<noteq> ''nan'')
        (map cell_INC df)"
    by (rule prepare_incident_data_keys)
  also have "\<dots> = []"
    unfolding filter_empty_conv map_append set_append stored_keys using keys by auto
  finally have second: "prepare_incident_data embed_content (st @ map stored new) df json_dir = []"
    by simp
  show ?thesis
    using first second
    by (simp add: process_excel_to_db_def Let_def insert_incidents_def flip: new_def)
qed

text \<open>At a batch with an existing key, a new key and an empty cell.\<close>

theorem ingest_twice_without_repeated_keys_witness:
  "process_excel_to_db sample_embed
      (snd (fst (process_excel_to_db sample_embed [sample_incident ''1'' [1, 0]]
         [sample_row ''1'' ''a'', sample_row ''2'' ''b'', sample_row ''nan'' ''c''] ''out'')))
      [sample_row ''1'' ''a'', sample_row ''2'' ''b'', sample_row ''nan'' ''c''] ''out''
   = ((None, snd (fst (process_excel_to_db sample_embed [sample_incident ''1'' [1, 0]]
         [sample_row ''1'' ''a'', sample_row ''2'' ''b'', sample_row ''nan'' ''c''] ''out''))), 0)
   \<and> map INC (snd (fst (process_excel_to_db sample_embed [sample_incident ''1'' [1, 0]]
         [sample_row ''1'' ''a'', sample_row ''2'' ''b'', sample_row ''nan'' ''c''] ''out'')))
     = [''1'', ''2'']"
proof -
  have d: "distinct (filter (\<lambda>k. k \<notin> get_existing_incidents [sample_incident ''1'' [1, 0]]
               \<and> k \<noteq> [] \<and> k \<noteq> ''nan'')
             (map cell_INC [sample_row ''1'' ''a'', sample_row ''2'' ''b'', sample_row ''nan'' ''c'']))"
    by (simp add: sample_row_def sample_incident_def get_existing_incidents_def)
  have s: "list_all storable (prepare_incident_data sample_embed [sample_incident ''1'' [1, 0]]
         [sample_row ''1'' ''a'', sample_row ''2'' ''b'', sample_row ''nan'' ''c''] ''out'')"
    by (simp add: prepare_incident_data_def get_existing_incidents_def sample_row_def
        sample_incident_def sample_embed_def generate_embedding_def storable_def Let_def
        to_float32_0 to_float32_1)
  have k: "map INC (snd (fst (process_excel_to_db sample_embed [sample_incident ''1'' [1, 0]]
         [sample_row ''1'' ''a'', sample_row ''2'' ''b'', sample_row ''nan'' ''c''] ''out'')))
     = [''1'', ''2'']"
    by (simp add: process_excel_to_db_def prepare_incident_data_def get_existing_incidents_def
      insert_incidents_execute_each execute_insert_def sample_row_def sample_incident_def
      sample_embed_def generate_embedding_def Let_def sample_casts)
  from ingest_twice_without_repeated_keys [OF d s] obtain st' where
    f: "fst (process_excel_to_db sample_embed [sample_incident ''1'' [1, 0]]
         [sample_row ''1'' ''a'', sample_row ''2'' ''b'', sample_row ''nan'' ''c''] ''out'') = (None, st')"
    and r: "process_excel_to_db sample_embed st'
         [sample_row ''1'' ''a'', sample_row ''2'' ''b'', sample_row ''nan'' ''c''] ''out'' = ((None, st'), 0)"
    by blast
  from f have st': "snd (fst (process_excel_to_db sample_embed [sample_incident ''1'' [1, 0]]
         [sample_row ''1'' ''a'', sample_row ''2'' ''b'', sample_row ''nan'' ''c''] ''out'')) = st'"
    by simp
  show ?thesis
    unfolding k unfolding st' using r by simp
qed

text \<open>
  C7. The claim: a record whose embedding has another length than the first one stored
  fails with DimensionMismatch and is not stored. Nothing in the code or in the table
  looks at the length of a vector. As amended: whether a record is accepted does not
  depend on the length of its embedding, and a record that is accepted (its key is new,
  its dates convert, the components of its embedding are in the range of a 32-bit float)
  is stored with its embedding, each component rounded to 32 bits, whatever the length;
  ingestion itself gives the empty embedding to a record whose description is empty, so
  the stored embeddings need not have one length.
\<close>

theorem insert_ignores_vector_length:
  "(storable (r\<lparr>vector := v\<rparr>) \<and> INC r \<notin> set (map INC st)
      \<longrightarrow> insert_incidents st [r\<lparr>vector := v\<rparr>] = (None, st @ [r\<lparr>vector := map to_float32 v\<rparr>]))
   \<and> (list_all (\<lambda>x. \<bar>to_float32 x\<bar> < 2 ^ 128) v \<and> list_all (\<lambda>x. \<bar>to_float32 x\<bar> < 2 ^ 128) v'
      \<longrightarrow> fst (insert_incidents st [r\<lparr>vector := v\<rparr>]) = fst (insert_incidents st [r\<lparr>vector := v'\<rparr>]))
   \<and> (cell_INC row \<notin> get_existing_incidents st \<and> cell_INC row \<noteq> [] \<and> cell_INC row \<noteq> ''nan''
        \<and> cell_Short_Desc row = []
      \<longrightarrow> map vector (prepare_incident_data embed_content st [row] json_dir) = [[]])"
proof (intro conjI impI)
  assume "storable (r\<lparr>vector := v\<rparr>) \<and> INC r \<notin> set (map INC st)"
  then show "insert_incidents st [r\<lparr>vector := v\<rparr>] = (None, st @ [r\<lparr>vector := map to_float32 v\<rparr>])"
    by (simp add: insert_incidents_execute_each execute_insert_storable stored_def)
next
  assume "list_all (\<lambda>x. \<bar>to_float32 x\<bar> < 2 ^ 128) v \<and> list_all (\<lambda>x. \<bar>to_float32 x\<bar> < 2 ^ 128) v'"
  then show "fst (insert_incidents st [r\<lparr>vector := v\<rparr>]) = fst (insert_incidents st [r\<lparr>vector := v'\<rparr>])"
    by (simp add: insert_incidents_execute_each execute_insert_def cast_FLOAT_list_storable
        split: sum.splits)
next
  assume "cell_INC row \<notin> get_existing_incidents st \<and> cell_INC row \<noteq> [] \<and> cell_INC row \<noteq> ''nan''
        \<and> cell_Short_Desc row = []"
  then show "map vector (prepare_incident_data embed_content st [row] json_dir) = [[]]"
    by (simp add: prepare_incident_data_def Let_def)
qed

text \<open>
  C7, at a table holding one vector of length 2: a record with the empty vector and one
  with three components (of which \<open>0.1\<close> is rounded) are accepted, a record is
  rejected for its key with a vector of either length, and a row without a description
  is prepared with the empty vector.
\<close>

theorem insert_ignores_vector_length_witness:
  "insert_incidents [sample_incident ''1'' [1, 0]] [(sample_incident ''2'' [1, 0])\<lparr>vector := []\<rparr>]
     = (None, [sample_incident ''1'' [1, 0], (sample_incident ''2'' [1, 0])\<lparr>vector := []\<rparr>])
   \<and> insert_incidents [sample_incident ''1'' [1, 0]]
        [(sample_incident ''2'' [1, 0])\<lparr>vector := [1, 0, 1 / 10]\<rparr>]
     = (None, [sample_incident ''1'' [1, 0],
               (sample_incident ''2'' [1, 0])\<lparr>vector := [1, 0, 13421773 / 134217728]\<rparr>])
   \<and> fst (insert_incidents [sample_incident ''1'' [1, 0]] [(sample_incident ''1'' [1, 0])\<lparr>vector := [1]\<rparr>])
       = Some (ConstraintException ''1'')
   \<and> fst (insert_incidents [sample_incident ''1'' [1, 0]] [(sample_incident ''1'' [1, 0])\<lparr>vector := [1, 0, 1]\<rparr>])
       = Some (ConstraintException ''1'')
   \<and> map vector (prepare_incident_data sample_embed [sample_incident ''1'' [1, 0]]
        [sample_row ''2'' []] ''out'') = [[]]"
proof -
  have k: "INC (sample_incident ''2'' [1, 0]) \<notin> set (map INC [sample_incident ''1'' [1, 0]])"
    by (simp add: sample_incident_def)
  have s1: "storable ((sample_incident ''2'' [1, 0])\<lparr>vector := []\<rparr>)"
    by (simp add: storable_def sample_incident_def)
  have s2: "storable ((sample_incident ''2'' [1, 0])\<lparr>vector := [1, 0, 1 / 10]\<rparr>)"
    by (simp add: storable_def sample_incident_def to_float32_0 to_float32_1 to_float32_tenth)
  have a: "insert_incidents [sample_incident ''1'' [1, 0]] [(sample_incident ''2'' [1, 0])\<lparr>vector := []\<rparr>]
     = (None, [sample_incident ''1'' [1, 0]] @ [(sample_incident ''2'' [1, 0])\<lparr>vector := map to_float32 []\<rparr>])"
    by (rule insert_ignores_vector_length [THEN conjunct1, rule_format]) (rule conjI s1 k)+
  have b: "insert_incidents [sample_incident ''1'' [1, 0]]
        [(sample_incident ''2'' [1, 0])\<lparr>vector := [1, 0, 1 / 10]\<rparr>]
     = (None, [sample_incident ''1'' [1, 0]]
          @ [(sample_incident ''2'' [1, 0])\<lparr>vector := map to_float32 [1, 0, 1 / 10]\<rparr>])"
    by (rule insert_ignores_vector_length [THEN conjunct1, rule_format]) (rule conjI s2 k)+
  have c: "fst (insert_incidents [sample_incident ''1'' [1, 0]] [(sample_incident ''1'' [1, 0])\<lparr>vector := [1]\<rparr>])
       = Some (ConstraintException ''1'')"
    by (simp add: insert_incidents_execute_each execute_insert_def sample_incident_def sample_casts)
  have "list_all (\<lambda>x. \<bar>to_float32 x\<bar> < 2 ^ 128) [1] \<and> list_all (\<lambda>x. \<bar>to_float32 x\<bar> < 2 ^ 128) [1, 0, 1]"
    by (simp add: to_float32_0 to_float32_1)
  from insert_ignores_vector_length [THEN conjunct2, THEN conjunct1, rule_format, OF this,
      of "[sample_incident ''1'' [1, 0]]" "sample_incident ''1'' [1, 0]"] c
  have d: "fst (insert_incidents [sample_incident ''1'' [1, 0]]
        [(sample_incident ''1'' [1, 0])\<lparr>vector := [1, 0, 1]\<rparr>]) = Some (ConstraintException ''1'')"
    by simp
  have "cell_INC (sample_row ''2'' []) \<notin> get_existing_incidents [sample_incident ''1'' [1, 0]]
     \<and> cell_INC (sample_row ''2'' []) \<noteq> [] \<and> cell_INC (sample_row ''2'' []) \<noteq> ''nan''
     \<and> cell_Short_Desc (sample_row ''2'' []) = []"
    by (simp add: sample_row_def sample_incident_def get_existing_incidents_def)
  from insert_ignores_vector_length [THEN conjunct2, THEN conjunct2, rule_format, OF this]
  have e: "map vector (prepare_incident_data sample_embed [sample_incident ''1'' [1, 0]]
        [sample_row ''2'' []] ''out'') = [[]]" .
  show ?thesis
    using a b c d e by (simp add: to_float32_0 to_float32_1 to_float32_tenth)
qed

text \<open>
  C7 as claimed fails: a batch of one described and one undescribed record is stored
  whole, with vectors of lengths 2 and 0.
\<close>

theorem mixed_vector_lengths_counterexample:
  "fst (process_excel_to_db sample_embed []
      [sample_row ''1'' ''UI is not loading'', sample_row ''2'' []] ''out'')
     = (None, prepare_incident_data sample_embed []
          [sample_row ''1'' ''UI is not loading'', sample_row ''2'' []] ''out'')
   \<and> map vector (snd (fst (process_excel_to_db sample_embed []
      [sample_row ''1'' ''UI is not loading'', sample_row ''2'' []] ''out''))) = [[1, 0], []]"
  by (simp add: process_excel_to_db_def prepare_incident_data_def get_existing_incidents_def
      insert_incidents_execute_each execute_insert_def sample_row_def sample_embed_def
      generate_embedding_def Let_def sample_casts)

section \<open>Properties of the similarity search\<close>



subsection \<open>The scores that the function can return\<close>







subsection \<open>The order of the rows\<close>











subsection \<open>The loop over the rows fetched\<close>




subsection \<open>The search as a whole\<close>























section \<open>Properties of the batch processing\<close>

lemma batch_loop_append:
  "batch_loop p (xs @ ys) results w =
     (case batch_loop p xs results w of (results', w') \<Rightarrow> batch_loop p ys results' w')"
  by (induction xs arbitrary: results w) (auto split: prod.splits sum.splits)

lemma batch_loop_keys:
  "set (map fst (fst (batch_loop p ks results w))) = set (map fst results) \<union> set ks"
  by (induction ks arbitrary: results w)
     (auto simp: AList.dom_update split: prod.splits sum.splits)

lemma batch_loop_distinct:
  "distinct (map fst results) \<Longrightarrow> distinct (map fst (fst (batch_loop p ks results w)))"
  by (induction ks arbitrary: results w)
     (auto simp: AList.distinct_update split: prod.splits sum.splits)

lemma batch_loop_other_key:
  "k \<notin> set ks \<Longrightarrow> map_of (fst (batch_loop p ks results w)) k = map_of results k"
  by (induction ks arbitrary: results w)
     (auto simp: AList.update_conv' split: prod.splits sum.splits)

text \<open>
  C10. \<open>batch_process_issues\<close> always returns a dictionary (it is a total function:
  no exception of \<open>process_jira_issue\<close> leaves it). The dictionary has exactly one
  entry for each distinct key of the input. The entry of a key is the outcome of the last
  processing of that key, \<open>False\<close> when that processing raised an exception; the
  keys after a failing one are processed all the same.
\<close>

theorem batch_process_issues_one_entry_per_key:
  "distinct (map fst (fst (batch_process_issues p issue_keys w)))
   \<and> set (map fst (fst (batch_process_issues p issue_keys w))) = set issue_keys
   \<and> (issue_keys = pre @ k # post \<and> k \<notin> set post
        \<longrightarrow> map_of (fst (batch_process_issues p issue_keys w)) k =
             Some (case fst (p (snd (batch_process_issues p pre w)) k) of
                     Inl e \<Rightarrow> False
                   | Inr success \<Rightarrow> success))"
proof (intro conjI impI)
  show "distinct (map fst (fst (batch_process_issues p issue_keys w)))"
    by (simp add: batch_process_issues_def batch_loop_distinct)
  show "set (map fst (fst (batch_process_issues p issue_keys w))) = set issue_keys"
    unfolding batch_process_issues_def batch_loop_keys by simp
next
  assume a: "issue_keys = pre @ k # post \<and> k \<notin> set post"
  then have ik: "issue_keys = pre @ k # post" and nk: "k \<notin> set post"
    by simp_all
  obtain results' w' where pre: "batch_loop p pre [] w = (results', w')"
    by (cases "batch_loop p pre [] w")
  obtain outcome w'' where step: "p w' k = (outcome, w'')"
    by (cases "p w' k")
  define entry where "entry = (case outcome of Inl e \<Rightarrow> False | Inr success \<Rightarrow> success)"
  have head: "batch_loop p (k # post) results' w' =
      batch_loop p post (AList.update k entry results') w''"
    using step by (cases outcome) (simp_all add: entry_def)
  have "batch_process_issues p issue_keys w = batch_loop p (k # post) results' w'"
    unfolding batch_process_issues_def ik batch_loop_append pre by simp
  then have "map_of (fst (batch_process_issues p issue_keys w)) k =
      map_of (AList.update k entry results') k"
    unfolding head using nk by (simp add: batch_loop_other_key)
  then have r: "map_of (fst (batch_process_issues p issue_keys w)) k = Some entry"
    by (simp add: AList.update_conv')
  have "fst (p (snd (batch_process_issues p pre w)) k) = outcome"
    by (simp add: batch_process_issues_def pre step)
  with r show "map_of (fst (batch_process_issues p issue_keys w)) k =
      Some (case fst (p (snd (batch_process_issues p pre w)) k) of
              Inl e \<Rightarrow> False
            | Inr success \<Rightarrow> success)"
    by (simp add: entry_def)
qed

text \<open>
  C10, at four keys of which the second raises and the fourth repeats the first:
  three entries, \<open>False\<close> for the failing key, and the keys after it processed.
\<close>

theorem batch_process_issues_one_entry_per_key_witness:
  "fst (batch_process_issues sample_process [''PROJ-1'', ''BAD-1'', ''PROJ-2'', ''PROJ-1''] ())
     = [(''PROJ-1'', True), (''BAD-1'', False), (''PROJ-2'', True)]
   \<and> distinct (map fst
        (fst (batch_process_issues sample_process [''PROJ-1'', ''BAD-1'', ''PROJ-2'', ''PROJ-1''] ())))
   \<and> fst (sample_process () ''BAD-1'') = Inl ValueError
   \<and> map_of (fst (batch_process_issues sample_process
        [''PROJ-1'', ''BAD-1'', ''PROJ-2'', ''PROJ-1''] ())) ''BAD-1'' = Some False"
proof -
  have e: "fst (batch_process_issues sample_process [''PROJ-1'', ''BAD-1'', ''PROJ-2'', ''PROJ-1''] ())
     = [(''PROJ-1'', True), (''BAD-1'', False), (''PROJ-2'', True)]"
    by (simp add: batch_process_issues_def sample_process_def)
  have d: "distinct (map fst
        (fst (batch_process_issues sample_process [''PROJ-1'', ''BAD-1'', ''PROJ-2'', ''PROJ-1''] ())))"
    by (rule batch_process_issues_one_entry_per_key [THEN conjunct1])
  have f: "fst (sample_process u ''BAD-1'') = Inl ValueError" for u
    by (simp add: sample_process_def)
  have k: "[''PROJ-1'', ''BAD-1'', ''PROJ-2'', ''PROJ-1''] = [''PROJ-1''] @ ''BAD-1'' # [''PROJ-2'', ''PROJ-1'']
      \<and> ''BAD-1'' \<notin> set [''PROJ-2'', ''PROJ-1'']"
    by simp
  have m: "map_of (fst (batch_process_issues sample_process
        [''PROJ-1'', ''BAD-1'', ''PROJ-2'', ''PROJ-1''] ())) ''BAD-1'' = Some False"
    unfolding batch_process_issues_one_entry_per_key
      [THEN conjunct2, THEN conjunct2, rule_format, OF k] f
    by simp
  show ?thesis
    by (rule conjI e d f m)+
qed

end
